theory Spec2Isabelle
  imports Complex_Main "HOL-Library.Sublist"
begin

section \<open>JavaScript values\<close>

text \<open>
  The values the two handlers of \<^verbatim>\<open>api/ai.js\<close> and \<^verbatim>\<open>api/[...supabase].js\<close> read and
  write: request bodies, rows of the data service, error objects and response bodies.
  A number is kept as the rational its JSON text denotes: the handlers only test numbers
  for being zero and pass them on.
  An object is the list of its properties, each key once, read with \<open>map_of\<close>.
\<close>

datatype json =
    JUndefined
  | JNull
  | JBool bool
  | JNum rat
  | JStr string
  | JArr "json list"
  | JObj "(string \<times> json) list"

text \<open>\<^verbatim>\<open>!!v\<close>: undefined, null, false, 0 and the empty string are falsy.\<close>

fun truthy :: "json \<Rightarrow> bool" where
  "truthy JUndefined = False"
| "truthy JNull = False"
| "truthy (JBool b) = b"
| "truthy (JNum n) = (n \<noteq> 0)"
| "truthy (JStr s) = (s \<noteq> [])"
| "truthy (JArr xs) = True"
| "truthy (JObj kvs) = True"

text \<open>\<^verbatim>\<open>a || b\<close>\<close>

definition js_or :: "json \<Rightarrow> json \<Rightarrow> json" where
  "js_or a b = (if truthy a then a else b)"

text \<open>\<^verbatim>\<open>typeof v === 'string'\<close>\<close>

fun is_string :: "json \<Rightarrow> bool" where
  "is_string (JStr s) = True"
| "is_string v = False"

text \<open>\<^verbatim>\<open>Array.isArray(v)\<close>\<close>

fun is_array :: "json \<Rightarrow> bool" where
  "is_array (JArr xs) = True"
| "is_array v = False"

fun nullish :: "json \<Rightarrow> bool" where
  "nullish JUndefined = True"
| "nullish JNull = True"
| "nullish v = False"

text \<open>
  \<^verbatim>\<open>v.k\<close> and \<^verbatim>\<open>v?.k\<close> for the keys the handlers read (\<open>message\<close>, \<open>email\<close>, \<open>type\<close>,
  \<open>payload\<close>, \<open>choices\<close>, \<open>content\<close>, \<open>text\<close>, \<open>role\<close>, \<open>id\<close>, \<open>code\<close>): none of them is a
  built-in property of a string, a number, a boolean or an array, so only an object
  answers with something else than undefined. On undefined and null \<^verbatim>\<open>v?.k\<close> is
  undefined; \<^verbatim>\<open>v.k\<close> throws there, which the handlers below write out where it can happen.
\<close>

fun field :: "json \<Rightarrow> string \<Rightarrow> json" where
  "field (JObj kvs) k = (case map_of kvs k of Some v \<Rightarrow> v | None \<Rightarrow> JUndefined)"
| "field v k = JUndefined"

text \<open>\<^verbatim>\<open>v?.[0]\<close>: the first element of an array, the first character of a string, the
  property \<open>0\<close> of an object.\<close>

fun idx0 :: "json \<Rightarrow> json" where
  "idx0 (JArr xs) = (case xs of [] \<Rightarrow> JUndefined | x # _ \<Rightarrow> x)"
| "idx0 (JStr s) = (case s of [] \<Rightarrow> JUndefined | c # _ \<Rightarrow> JStr [c])"
| "idx0 (JObj kvs) = (case map_of kvs ''0'' of Some v \<Rightarrow> v | None \<Rightarrow> JUndefined)"
| "idx0 v = JUndefined"

text \<open>A thrown error, as the \<^verbatim>\<open>catch\<close> blocks read it: \<^verbatim>\<open>err.message\<close> and \<^verbatim>\<open>String(err)\<close>.\<close>

record js_error =
  err_message :: string
  err_string :: string

record response =
  res_status :: nat
  res_json :: json

definition respond :: "nat \<Rightarrow> json \<Rightarrow> response" where
  "respond n v = \<lparr>res_status = n, res_json = v\<rparr>"

text \<open>\<^verbatim>\<open>res.status(500).json({ error: err.message || String(err) })\<close>\<close>

definition caught :: "js_error \<Rightarrow> response" where
  "caught err =
     respond 500 (JObj [(''error'', js_or (JStr (err_message err)) (JStr (err_string err)))])"

text \<open>The TypeError of V8 for reading property \<open>k\<close> of null.\<close>

definition null_read :: "string \<Rightarrow> js_error" where
  "null_read k =
     (let m = ''Cannot read properties of null (reading '' @ [CHR 0x27] @ k @ [CHR 0x27] @ '')''
      in \<lparr>err_message = m, err_string = ''TypeError: '' @ m\<rparr>)"

record request =
  "method" :: string
  url :: string
  authorization :: "string option"
  body :: json

section \<open>The completion proxy (\<^verbatim>\<open>api/ai.js\<close>)\<close>

text \<open>
  The provider is outside the program: \<^verbatim>\<open>fetch\<close> either rejects or resolves to a
  response with its \<^verbatim>\<open>ok\<close> flag, its text and the outcome of \<^verbatim>\<open>r.json()\<close> (a rejection
  when the text is not JSON).
\<close>

record http_response =
  ok :: bool
  text_of :: string
  json_of :: "js_error + json"

datatype fetch_outcome = Rejects js_error | Resolves http_response

text \<open>The external calls a run of the proxy makes, in order: the key and the payload posted.\<close>

datatype ai_call = Fetch string json

definition system_prompt :: string where
  "system_prompt = ''You are Gorilla Hub assistant. Provide concise, friendly, and accurate answers about Gorilla Tag, tutorials, cosmetics and site functionality.''"

definition completion_payload :: "json \<Rightarrow> json" where
  "completion_payload message =
     JObj [(''model'', JStr ''gpt-3.5-turbo''),
           (''messages'',
              JArr [JObj [(''role'', JStr ''system''), (''content'', JStr system_prompt)],
                    JObj [(''role'', JStr ''user''), (''content'', message)]]),
           (''max_tokens'', JNum 800),
           (''temperature'', JNum (7 / 10))]"

text \<open>\<^verbatim>\<open>json.choices?.[0]?.message?.content\<close> and \<^verbatim>\<open>json?.choices?.[0]?.text\<close>, for a
  \<open>json\<close> that is not null.\<close>

definition content_field :: "json \<Rightarrow> json" where
  "content_field j = field (field (idx0 (field j ''choices'')) ''message'') ''content''"

definition text_field :: "json \<Rightarrow> json" where
  "text_field j = field (idx0 (field j ''choices'')) ''text''"

text \<open>
  Line 39. \<^verbatim>\<open>json.choices\<close> has no \<^verbatim>\<open>?.\<close>: on a null \<open>json\<close> it throws, and the
  \<^verbatim>\<open>catch\<close> block answers. (\<^verbatim>\<open>r.json()\<close> never yields undefined.)
\<close>

definition extract_reply :: "json \<Rightarrow> js_error + json" where
  "extract_reply j =
     (if nullish j then Inl (null_read ''choices'')
      else Inr (js_or (content_field j) (js_or (text_field j) (JStr ''''))))"

text \<open>
  The handler: the API key of the environment (\<open>None\<close> when the variable is unset), the
  provider, the request; it returns the response and the external calls made.
\<close>

definition ai_handler ::
  "string option \<Rightarrow> (string \<Rightarrow> json \<Rightarrow> fetch_outcome) \<Rightarrow> request \<Rightarrow> response \<times> ai_call list" where
  "ai_handler OPENAI_API_KEY provider req =
     (if method req \<noteq> ''POST'' then (respond 405 (JObj [(''error'', JStr ''Method not allowed'')]), [])
      else
        let message = field (js_or (body req) (JObj [])) ''message'' in
        if \<not> truthy message \<or> \<not> is_string message then
          (respond 400 (JObj [(''error'', JStr ''Invalid message'')]), [])
        else
          (case OPENAI_API_KEY of
             None \<Rightarrow>
               (respond 500 (JObj [(''error'', JStr ''OpenAI key not set in environment variables'')]), [])
           | Some key \<Rightarrow>
               if key = [] then
                 (respond 500 (JObj [(''error'', JStr ''OpenAI key not set in environment variables'')]), [])
               else
                 let payload = completion_payload message; calls = [Fetch key payload] in
                 (case provider key payload of
                    Rejects err \<Rightarrow> (caught err, calls)
                  | Resolves r \<Rightarrow>
                      if \<not> ok r then
                        (respond 500 (JObj [(''error'', JStr ''OpenAI error''),
                                            (''details'', JStr (text_of r))]), calls)
                      else
                        (case json_of r of
                           Inl err \<Rightarrow> (caught err, calls)
                         | Inr j \<Rightarrow>
                             (case extract_reply j of
                                Inl err \<Rightarrow> (caught err, calls)
                              | Inr reply \<Rightarrow>
                                  (respond 200 (JObj [(''reply'', reply), (''raw'', j)]), calls))))))"

section \<open>The data service\<close>

text \<open>
  The hosted data service and its client library are outside the program. The model keeps
  what the handler can observe of them: the rows of the four tables, the answer of
  \<^verbatim>\<open>auth.getUser\<close> to a token, and for each kind of call on each table whether the
  service refuses it (the error object the client then returns in \<^verbatim>\<open>error\<close>; the client
  returns errors, it does not throw them). An error is \<open>None\<close> for \<^verbatim>\<open>null\<close> and
  otherwise an error object, which is truthy.
\<close>

datatype table = Settings | Tutorials | Cosmetics | Users

text \<open>\<^verbatim>\<open>user.id\<close>, \<^verbatim>\<open>user.email\<close>, \<^verbatim>\<open>user.user_metadata?.full_name\<close>\<close>

record user =
  user_id :: string
  user_email :: "string option"
  full_name :: json

record getUser_result =
  gu_user :: "user option"
  gu_error :: "json option"

record service =
  getUser :: "string \<Rightarrow> getUser_result"
  select_error :: "table \<Rightarrow> json option"
  delete_error :: "table \<Rightarrow> json option"
  insert_error :: "table \<Rightarrow> json option"
  upsert_error :: "table \<Rightarrow> json option"
  order_by :: "string \<Rightarrow> json list \<Rightarrow> json list"
  returning :: "json \<Rightarrow> json"

text \<open>The external calls of a run, in order, and the tables.\<close>

datatype call =
    GetUser string
  | Select table
  | Delete table
  | Insert table "json list"
  | Upsert table json

record world =
  db :: "table \<Rightarrow> json list"
  calls :: "call list"

definition called :: "call \<Rightarrow> world \<Rightarrow> world" where
  "called c w = w\<lparr>calls := calls w @ [c]\<rparr>"

definition auth_getUser :: "service \<Rightarrow> string \<Rightarrow> world \<Rightarrow> getUser_result \<times> world" where
  "auth_getUser svc token w = (getUser svc token, called (GetUser token) w)"

text \<open>\<^verbatim>\<open>from(t).select(..)\<close>: the rows, or the service's error.\<close>

definition db_select :: "service \<Rightarrow> table \<Rightarrow> world \<Rightarrow> (json list \<times> json option) \<times> world" where
  "db_select svc t w =
     ((case select_error svc t of Some e \<Rightarrow> ([], Some e) | None \<Rightarrow> (db w t, None)),
      called (Select t) w)"

text \<open>
  \<^verbatim>\<open>.single()\<close> and \<^verbatim>\<open>.maybeSingle()\<close> of the client: one row is the datum; no row is
  the error with code PGRST116 for \<open>single\<close> and a null datum for \<open>maybeSingle\<close>; several
  rows are that error for both.
\<close>

definition no_single_row :: json where
  "no_single_row =
     JObj [(''code'', JStr ''PGRST116''),
           (''message'', JStr ''JSON object requested, multiple (or no) rows returned'')]"

definition single :: "json list \<times> json option \<Rightarrow> json \<times> json option" where
  "single r =
     (case snd r of
        Some e \<Rightarrow> (JNull, Some e)
      | None \<Rightarrow> (case fst r of [x] \<Rightarrow> (x, None) | _ \<Rightarrow> (JNull, Some no_single_row)))"

definition maybeSingle :: "json list \<times> json option \<Rightarrow> json \<times> json option" where
  "maybeSingle r =
     (case snd r of
        Some e \<Rightarrow> (JNull, Some e)
      | None \<Rightarrow>
          (case fst r of [] \<Rightarrow> (JNull, None) | [x] \<Rightarrow> (x, None) | _ \<Rightarrow> (JNull, Some no_single_row)))"

text \<open>\<^verbatim>\<open>.limit(1)\<close>, \<^verbatim>\<open>.eq('id', v)\<close>\<close>

definition limit :: "nat \<Rightarrow> json list \<times> json option \<Rightarrow> json list \<times> json option" where
  "limit n r = (take n (fst r), snd r)"

definition eq_id :: "json \<Rightarrow> json list \<times> json option \<Rightarrow> json list \<times> json option" where
  "eq_id v r = (filter (\<lambda>x. field x ''id'' = v) (fst r), snd r)"

text \<open>Setting a property of an object: an existing key keeps its place.\<close>

fun obj_set :: "string \<Rightarrow> json \<Rightarrow> (string \<times> json) list \<Rightarrow> (string \<times> json) list" where
  "obj_set k v [] = [(k, v)]"
| "obj_set k v ((k', v') # kvs) = (if k' = k then (k, v) # kvs else (k', v') # obj_set k v kvs)"

definition obj_assign :: "(string \<times> json) list \<Rightarrow> (string \<times> json) list \<Rightarrow> (string \<times> json) list" where
  "obj_assign target src = fold (\<lambda>kv. obj_set (fst kv) (snd kv)) src target"

text \<open>A row as it travels: \<^verbatim>\<open>JSON.stringify\<close> drops the properties whose value is undefined.\<close>

fun wire :: "json \<Rightarrow> json" where
  "wire (JObj kvs) = JObj (filter (\<lambda>kv. snd kv \<noteq> JUndefined) kvs)"
| "wire v = v"

text \<open>
  \<^verbatim>\<open>.delete()\<close> empties the table, \<^verbatim>\<open>.insert(rows)\<close> adds the rows, unless the service
  refuses; a refused call changes nothing.
\<close>

definition db_delete :: "service \<Rightarrow> table \<Rightarrow> world \<Rightarrow> json option \<times> world" where
  "db_delete svc t w =
     (case delete_error svc t of
        Some e \<Rightarrow> (Some e, called (Delete t) w)
      | None \<Rightarrow> (None, called (Delete t) (w\<lparr>db := (db w)(t := [])\<rparr>)))"

definition db_insert :: "service \<Rightarrow> table \<Rightarrow> json list \<Rightarrow> world \<Rightarrow> json option \<times> world" where
  "db_insert svc t rows w =
     (case insert_error svc t of
        Some e \<Rightarrow> (Some e, called (Insert t rows) w)
      | None \<Rightarrow> (None, called (Insert t rows) (w\<lparr>db := (db w)(t := db w t @ map wire rows)\<rparr>)))"

text \<open>
  \<^verbatim>\<open>.upsert(row, { onConflict: ['id'] })\<close>. The handler never passes
  \<^verbatim>\<open>ignoreDuplicates\<close>, so the client asks the service to merge duplicates: a stored row
  with the same \<open>id\<close> takes every column the new row carries, and a row with a new \<open>id\<close> is
  added. The datum returned is the service's business (\<open>returning\<close>).
\<close>

definition merge_row :: "json \<Rightarrow> json \<Rightarrow> json" where
  "merge_row old new =
     (case old of
        JObj a \<Rightarrow> (case new of JObj b \<Rightarrow> JObj (obj_assign a b) | _ \<Rightarrow> new)
      | _ \<Rightarrow> new)"

definition upsert_rows :: "json \<Rightarrow> json list \<Rightarrow> json list" where
  "upsert_rows r rows =
     (if list_ex (\<lambda>x. field x ''id'' = field r ''id'') rows
      then map (\<lambda>x. if field x ''id'' = field r ''id'' then merge_row x r else x) rows
      else rows @ [r])"

definition db_upsert :: "service \<Rightarrow> table \<Rightarrow> json \<Rightarrow> world \<Rightarrow> (json \<times> json option) \<times> world" where
  "db_upsert svc t row w =
     (case upsert_error svc t of
        Some e \<Rightarrow> ((JNull, Some e), called (Upsert t row) w)
      | None \<Rightarrow>
          ((returning svc (wire row), None),
           called (Upsert t row) (w\<lparr>db := (db w)(t := upsert_rows (wire row) (db w t))\<rparr>)))"

section \<open>The catch-all handler (\<^verbatim>\<open>api/[...supabase].js\<close>)\<close>

text \<open>\<^verbatim>\<open>s.replace(pat, rep)\<close> with a string pattern: the first occurrence only.\<close>

fun replace_first :: "string \<Rightarrow> string \<Rightarrow> string \<Rightarrow> string" where
  "replace_first pat rep [] = (if pat = [] then rep else [])"
| "replace_first pat rep (c # cs) =
     (if prefix pat (c # cs) then rep @ drop (length pat) (c # cs)
      else c # replace_first pat rep cs)"

text \<open>\<^verbatim>\<open>url.replace(/^\/api\/?/, '')\<close>\<close>

definition strip_api :: "string \<Rightarrow> string" where
  "strip_api u =
     (if prefix ''/api/'' u then drop 5 u
      else if prefix ''/api'' u then drop 4 u
      else u)"

text \<open>
  \<^verbatim>\<open>const authHeader = req.headers.authorization || '';\<close>
  \<^verbatim>\<open>const token = authHeader.replace('Bearer ', '') || null;\<close>
\<close>

definition extract_token :: "string option \<Rightarrow> string option" where
  "extract_token h =
     (let authHeader = (case h of None \<Rightarrow> [] | Some a \<Rightarrow> if a = [] then [] else a);
          token = replace_first ''Bearer '' [] authHeader
      in if token = [] then None else Some token)"

text \<open>\<^verbatim>\<open>{ error: error.message || error }\<close>\<close>

definition error_body :: "json \<Rightarrow> json" where
  "error_body e = JObj [(''error'', js_or (field e ''message'') e)]"

definition message_body :: "string \<Rightarrow> json" where
  "message_body m = JObj [(''error'', JStr m)]"

text \<open>\<^verbatim>\<open>user.email\<close> and \<^verbatim>\<open>user.email?.split('@')[0]\<close>\<close>

definition email_json :: "user \<Rightarrow> json" where
  "email_json u = (case user_email u of None \<Rightarrow> JUndefined | Some e \<Rightarrow> JStr e)"

definition email_local :: "user \<Rightarrow> json" where
  "email_local u =
     (case user_email u of
        None \<Rightarrow> JUndefined
      | Some e \<Rightarrow> JStr (takeWhile (\<lambda>c. c \<noteq> CHR ''@'') e))"

text \<open>Lines 78-82.\<close>

definition data_site :: "service \<Rightarrow> world \<Rightarrow> response \<times> world" where
  "data_site svc w =
     (let (r, w1) = db_select svc Settings w;
          (data, error) = single (limit 1 r);
          dflt = JObj [(''title'', JStr ''Gorilla Hub''), (''about'', JStr ''Welcome'')]
      in case error of
           None \<Rightarrow> (respond 200 (js_or data dflt), w1)
         | Some e \<Rightarrow>
             if field e ''code'' \<noteq> JStr ''PGRST116'' then (respond 500 (error_body e), w1)
             else (respond 200 (js_or data dflt), w1))"

text \<open>Lines 84-94: the two lists, ordered by the service on the given column.\<close>

definition data_list :: "service \<Rightarrow> table \<Rightarrow> string \<Rightarrow> world \<Rightarrow> response \<times> world" where
  "data_list svc t col w =
     (let (r, w1) = db_select svc t w
      in case snd r of
           Some e \<Rightarrow> (respond 500 (error_body e), w1)
         | None \<Rightarrow> (respond 200 (JArr (order_by svc col (fst r))), w1))"

text \<open>Lines 97-112.\<close>

definition sync_user :: "service \<Rightarrow> request \<Rightarrow> world \<Rightarrow> response \<times> world" where
  "sync_user svc req w =
     (case extract_token (authorization req) of
        None \<Rightarrow> (respond 400 (message_body ''Missing token''), w)
      | Some token \<Rightarrow>
          let (gu, w1) = auth_getUser svc token w in
          if gu_error gu \<noteq> None then (respond 401 (message_body ''Invalid token''), w1)
          else
            (case gu_user gu of
               None \<Rightarrow> (respond 404 (message_body ''User not found''), w1)
             | Some u \<Rightarrow>
                 let email = field (js_or (body req) (JObj [])) ''email'';
                     row = JObj [(''id'', JStr (user_id u)),
                                 (''email'', js_or (email_json u) (js_or email (JStr []))),
                                 (''role'', JStr ''user''),
                                 (''name'', js_or (full_name u) (email_local u))];
                     (r, w2) = db_upsert svc Users row w1
                 in case snd r of
                      Some e \<Rightarrow> (respond 500 (error_body e), w2)
                    | None \<Rightarrow> (respond 200 (JObj [(''ok'', JBool True)]), w2)))"

text \<open>Lines 115-125. \<^verbatim>\<open>userData.user.id\<close> throws on a null user; the \<^verbatim>\<open>catch\<close> block answers.\<close>

definition data_me :: "service \<Rightarrow> request \<Rightarrow> world \<Rightarrow> response \<times> world" where
  "data_me svc req w =
     (case extract_token (authorization req) of
        None \<Rightarrow> (respond 401 (message_body ''Not authenticated''), w)
      | Some token \<Rightarrow>
          let (gu, w1) = auth_getUser svc token w in
          if gu_error gu \<noteq> None then (respond 401 (message_body ''Invalid token''), w1)
          else
            (case gu_user gu of
               None \<Rightarrow> (caught (null_read ''id''), w1)
             | Some u \<Rightarrow>
                 let id = user_id u;
                     (r, w2) = db_select svc Users w1;
                     (data, error) = maybeSingle (eq_id (JStr id) r)
                 in case error of
                      Some e \<Rightarrow> (respond 500 (error_body e), w2)
                    | None \<Rightarrow>
                        (respond 200
                           (js_or data
                              (JObj [(''id'', JStr id),
                                     (''email'', email_json u),
                                     (''role'', JStr ''user''),
                                     (''name'', js_or (email_local u) (JStr ''User''))])), w2)))"

text \<open>Decimal digits of an index, for the keys of a spread array or string.\<close>

fun show_nat :: "nat \<Rightarrow> string" where
  "show_nat n =
     (if n < 10 then [char_of (48 + n)]
      else show_nat (n div 10) @ [char_of (48 + n mod 10)])"

fun indexed :: "nat \<Rightarrow> json list \<Rightarrow> (string \<times> json) list" where
  "indexed n [] = []"
| "indexed n (x # xs) = (show_nat n, x) # indexed (Suc n) xs"

text \<open>The own properties \<^verbatim>\<open>{...v}\<close> copies.\<close>

fun spread :: "json \<Rightarrow> (string \<times> json) list" where
  "spread (JObj kvs) = kvs"
| "spread (JArr xs) = indexed 0 xs"
| "spread (JStr s) = indexed 0 (map (\<lambda>c. JStr [c]) s)"
| "spread v = []"

text \<open>Lines 156-176: \<open>tutorials\<close> and \<open>cosmetics\<close>. The result of the delete is not read.\<close>

definition replace_collection :: "service \<Rightarrow> table \<Rightarrow> json \<Rightarrow> world \<Rightarrow> response \<times> world" where
  "replace_collection svc t payload w =
     (let arr = (case payload of JArr xs \<Rightarrow> xs | _ \<Rightarrow> []);
          (d, w1) = db_delete svc t w
      in if arr \<noteq> [] then
           (let (error, w2) = db_insert svc t arr w1
            in case error of
                 Some e \<Rightarrow> (respond 500 (error_body e), w2)
               | None \<Rightarrow> (respond 200 (JObj [(''ok'', JBool True)]), w2))
         else (respond 200 (JObj [(''ok'', JBool True)]), w1))"

text \<open>Lines 143-178: the update itself, once the role has passed.\<close>

definition perform_update :: "service \<Rightarrow> request \<Rightarrow> world \<Rightarrow> response \<times> world" where
  "perform_update svc req w =
     (let body = js_or (body req) (JObj []);
          type = field body ''type'';
          payload = field body ''payload''
      in if \<not> truthy type then (respond 400 (message_body ''Missing type''), w)
         else if type = JStr ''site'' then
           (let settingsRow = (if is_array payload then idx0 payload else payload);
                (r, w1) = db_upsert svc Settings
                            (JObj (obj_assign [(''id'', JNum 1)] (spread settingsRow))) w
            in case snd r of
                 Some e \<Rightarrow> (respond 500 (error_body e), w1)
               | None \<Rightarrow> (respond 200 (fst r), w1))
         else if type = JStr ''tutorials'' then replace_collection svc Tutorials payload w
         else if type = JStr ''cosmetics'' then replace_collection svc Cosmetics payload w
         else (respond 400 (message_body ''Unknown update type''), w))"

text \<open>Lines 128-141: token, identity, role; then the update.\<close>

definition admin_update :: "service \<Rightarrow> request \<Rightarrow> world \<Rightarrow> response \<times> world" where
  "admin_update svc req w =
     (case extract_token (authorization req) of
        None \<Rightarrow> (respond 401 (message_body ''Missing token''), w)
      | Some token \<Rightarrow>
          let (ud, w1) = auth_getUser svc token w in
          if gu_error ud \<noteq> None then (respond 401 (message_body ''Invalid token''), w1)
          else
            (case gu_user ud of
               None \<Rightarrow> (respond 401 (message_body ''Invalid token''), w1)
             | Some u \<Rightarrow>
                 let uid = user_id u;
                     (r, w2) = db_select svc Users w1;
                     (row, rowErr) = maybeSingle (eq_id (JStr uid) r)
                 in case rowErr of
                      Some e \<Rightarrow> (respond 500 (error_body e), w2)
                    | None \<Rightarrow>
                        let role = js_or (if nullish row then JUndefined else field row ''role'')
                                         (JStr ''user'')
                        in if \<not> (role = JStr ''admin'' \<or> role = JStr ''dev'')
                           then (respond 403 (message_body ''Insufficient privileges''), w2)
                           else perform_update svc req w2))"

text \<open>Lines 70-186: the router.\<close>

definition handler :: "service \<Rightarrow> request \<Rightarrow> world \<Rightarrow> response \<times> world" where
  "handler svc req w =
     (let path = strip_api (url req)
      in if method req = ''GET'' \<and> prefix ''supabase/data/site'' path then data_site svc w
         else if method req = ''GET'' \<and> prefix ''supabase/data/tutorials'' path
           then data_list svc Tutorials ''title'' w
         else if method req = ''GET'' \<and> prefix ''supabase/data/cosmetics'' path
           then data_list svc Cosmetics ''name'' w
         else if method req = ''POST'' \<and> prefix ''supabase/data/sync_user'' path
           then sync_user svc req w
         else if method req = ''GET'' \<and> prefix ''supabase/data/me'' path then data_me svc req w
         else if method req = ''POST'' \<and> prefix ''supabase/admin/update'' path
           then admin_update svc req w
         else (respond 404 (message_body ''Not found''), w))"

section \<open>The route table of the specification\<close>

text \<open>
  The specification describes the router as a fixed ordered list of method and path
  prefix, matched against the request path once the mount point is stripped. This is
  that list, written from the specification's table, to compare the handler with.
\<close>

definition route_table :: "(string \<times> string) list" where
  "route_table =
     [(''GET'', ''supabase/data/site''),
      (''GET'', ''supabase/data/tutorials''),
      (''GET'', ''supabase/data/cosmetics''),
      (''POST'', ''supabase/data/sync_user''),
      (''GET'', ''supabase/data/me''),
      (''POST'', ''supabase/admin/update'')]"

definition route_matches :: "request \<Rightarrow> bool" where
  "route_matches req =
     list_ex (\<lambda>entry. method req = fst entry \<and> prefix (snd entry) (strip_api (url req))) route_table"

section \<open>Concrete requests, services and stores\<close>

definition post_ai :: "json \<Rightarrow> request" where
  "post_ai b = \<lparr>method = ''POST'', url = ''/api/ai'', authorization = None, body = b\<rparr>"

definition hello :: json where
  "hello = JObj [(''message'', JStr ''hello'')]"

text \<open>A provider that answers every request with the given response.\<close>

definition answers :: "http_response \<Rightarrow> string \<Rightarrow> json \<Rightarrow> fetch_outcome" where
  "answers r = (\<lambda>key payload. Resolves r)"

definition quota_exceeded :: http_response where
  "quota_exceeded = \<lparr>ok = False, text_of = ''quota exceeded'', json_of = Inl \<lparr>err_message = ''Unexpected token q'', err_string = ''SyntaxError: Unexpected token q''\<rparr>\<rparr>"

definition completion :: "json \<Rightarrow> http_response" where
  "completion j = \<lparr>ok = True, text_of = ''(body)'', json_of = Inr j\<rparr>"

text \<open>\<^verbatim>\<open>{choices: [{message: {content: "hi"}}]}\<close>\<close>

definition chat_hi :: json where
  "chat_hi = JObj [(''choices'', JArr [JObj [(''message'', JObj [(''content'', JStr ''hi'')])]])]"

text \<open>\<^verbatim>\<open>{choices: [{message: {content: ""}, text: "abc"}]}\<close>\<close>

definition empty_content :: json where
  "empty_content =
     JObj [(''choices'',
            JArr [JObj [(''message'', JObj [(''content'', JStr [])]), (''text'', JStr ''abc'')]])]"

text \<open>Two identities: Ada holds the role \<open>admin\<close>, Bob the role \<open>user\<close>; Cy has no profile row.\<close>

definition ada :: user where
  "ada = \<lparr>user_id = ''u-ada'', user_email = Some ''ada@example.org'', full_name = JUndefined\<rparr>"

definition bob :: user where
  "bob = \<lparr>user_id = ''u-bob'', user_email = Some ''bob@example.org'', full_name = JUndefined\<rparr>"

definition cy :: user where
  "cy = \<lparr>user_id = ''u-cy'', user_email = Some ''cy@example.org'', full_name = JUndefined\<rparr>"

definition ada_row :: json where
  "ada_row = JObj [(''id'', JStr ''u-ada''), (''email'', JStr ''ada@example.org''),
                   (''role'', JStr ''admin''), (''name'', JStr ''Ada'')]"

definition bob_row :: json where
  "bob_row = JObj [(''id'', JStr ''u-bob''), (''email'', JStr ''bob@example.org''),
                   (''role'', JStr ''user''), (''name'', JStr ''bob'')]"

definition old_tutorial :: json where
  "old_tutorial = JObj [(''title'', JStr ''Old'')]"

definition invalid_jwt :: json where
  "invalid_jwt = JObj [(''message'', JStr ''invalid JWT'')]"

definition refused :: json where
  "refused = JObj [(''code'', JStr ''42501''), (''message'', JStr ''permission denied'')]"

definition accounts :: "string \<Rightarrow> getUser_result" where
  "accounts token =
     (if token = ''tok-ada'' then \<lparr>gu_user = Some ada, gu_error = None\<rparr>
      else if token = ''tok-bob'' then \<lparr>gu_user = Some bob, gu_error = None\<rparr>
      else if token = ''tok-cy'' then \<lparr>gu_user = Some cy, gu_error = None\<rparr>
      else \<lparr>gu_user = None, gu_error = Some invalid_jwt\<rparr>)"

text \<open>A service that refuses nothing, and the same with the delete or the insert refused.\<close>

definition sound_service :: service where
  "sound_service =
     \<lparr>getUser = accounts,
      select_error = (\<lambda>t. None), delete_error = (\<lambda>t. None),
      insert_error = (\<lambda>t. None), upsert_error = (\<lambda>t. None),
      order_by = (\<lambda>col rows. rows), returning = (\<lambda>row. JNull)\<rparr>"

definition insert_refused :: service where
  "insert_refused = sound_service\<lparr>insert_error := (\<lambda>t. Some refused)\<rparr>"

definition delete_and_insert_refused :: service where
  "delete_and_insert_refused =
     sound_service\<lparr>delete_error := (\<lambda>t. Some refused), insert_error := (\<lambda>t. Some refused)\<rparr>"

definition tables :: "table \<Rightarrow> json list" where
  "tables t = (case t of Users \<Rightarrow> [ada_row, bob_row] | Tutorials \<Rightarrow> [old_tutorial] | _ \<Rightarrow> [])"

definition start :: world where
  "start = \<lparr>db = tables, calls = []\<rparr>"

definition request_with :: "string \<Rightarrow> string \<Rightarrow> string option \<Rightarrow> json \<Rightarrow> request" where
  "request_with m u a b = \<lparr>method = m, url = u, authorization = a, body = b\<rparr>"

text \<open>\<^verbatim>\<open>{type: "tutorials", payload: [{title: "A"}]}\<close>\<close>

definition tutorials_update :: json where
  "tutorials_update =
     JObj [(''type'', JStr ''tutorials''), (''payload'', JArr [JObj [(''title'', JStr ''A'')]])]"

section \<open>The completion proxy: properties\<close>

text \<open>
  C9. A request to the completion proxy whose method is not POST gets status 405 with
  the body \<open>{error: 'Method not allowed'}\<close>, whatever its body, the environment's key and
  the provider are, and no external call is made.
\<close>

theorem ai_method_guard:
  "method req \<noteq> ''POST'' \<Longrightarrow>
     ai_handler key provider req =
       (\<lparr>res_status = 405, res_json = JObj [(''error'', JStr ''Method not allowed'')]\<rparr>, [])"
  by (simp add: ai_handler_def respond_def)

theorem ai_method_guard_witness:
  "method \<lparr>method = ''GET'', url = ''/api/ai'', authorization = None,
            body = JObj [(''message'', JStr ''hello'')]\<rparr> \<noteq> ''POST''
   \<and> ai_handler (Some ''sk-1'') (\<lambda>k p. Rejects \<lparr>err_message = ''down'', err_string = ''Error: down''\<rparr>)
        \<lparr>method = ''GET'', url = ''/api/ai'', authorization = None,
         body = JObj [(''message'', JStr ''hello'')]\<rparr>
     = (\<lparr>res_status = 405, res_json = JObj [(''error'', JStr ''Method not allowed'')]\<rparr>, [])"
  using ai_method_guard
    [of "\<lparr>method = ''GET'', url = ''/api/ai'', authorization = None,
          body = JObj [(''message'', JStr ''hello'')]\<rparr>"
        "Some ''sk-1''" "\<lambda>k p. Rejects \<lparr>err_message = ''down'', err_string = ''Error: down''\<rparr>"]
  by simp

text \<open>
  C5. For a POST to the completion proxy: a message that is absent, empty or not a string
  is answered with status 400; with a valid message and no provider key in the
  environment (unset or empty) the answer is status 500 with the message that the key is
  not set; when the provider answers with a failure, the answer is status 500 with the
  error \<open>OpenAI error\<close> and the provider's raw text under \<open>details\<close>. The body of the
  missing-key answer differs from the body of every provider-failure answer.
\<close>

theorem ai_error_kinds:
  assumes "method req = ''POST''"
    and "field (js_or (body req) (JObj [])) ''message'' = m"
  shows
    "(m = JUndefined \<or> m = JStr [] \<or> \<not> is_string m \<longrightarrow>
        ai_handler key provider req =
          (\<lparr>res_status = 400, res_json = JObj [(''error'', JStr ''Invalid message'')]\<rparr>, []))
     \<and> (is_string m \<and> m \<noteq> JStr [] \<and> (key = None \<or> key = Some []) \<longrightarrow>
        ai_handler key provider req =
          (\<lparr>res_status = 500,
            res_json = JObj [(''error'', JStr ''OpenAI key not set in environment variables'')]\<rparr>, []))
     \<and> (\<forall>k r. is_string m \<and> m \<noteq> JStr [] \<and> key = Some k \<and> k \<noteq> []
            \<and> provider k (completion_payload m) = Resolves r \<and> \<not> ok r \<longrightarrow>
        ai_handler key provider req =
          (\<lparr>res_status = 500,
            res_json = JObj [(''error'', JStr ''OpenAI error''), (''details'', JStr (text_of r))]\<rparr>,
           [Fetch k (completion_payload m)]))
     \<and> (\<forall>t. JObj [(''error'', JStr ''OpenAI key not set in environment variables'')]
            \<noteq> JObj [(''error'', JStr ''OpenAI error''), (''details'', JStr t)])"
proof -
  have valid: "truthy m \<and> is_string m" if "is_string m" "m \<noteq> JStr []"
    using that by (cases m) simp_all
  have invalid: "\<not> truthy m \<or> \<not> is_string m" if "m = JUndefined \<or> m = JStr [] \<or> \<not> is_string m"
    using that by auto
  have bad: "m = JUndefined \<or> m = JStr [] \<or> \<not> is_string m \<longrightarrow>
        ai_handler key provider req =
          (\<lparr>res_status = 400, res_json = JObj [(''error'', JStr ''Invalid message'')]\<rparr>, [])"
    using assms invalid by (auto simp: ai_handler_def respond_def)
  have config: "is_string m \<and> m \<noteq> JStr [] \<and> (key = None \<or> key = Some []) \<longrightarrow>
        ai_handler key provider req =
          (\<lparr>res_status = 500,
            res_json = JObj [(''error'', JStr ''OpenAI key not set in environment variables'')]\<rparr>, [])"
    using assms valid by (auto simp: ai_handler_def respond_def)
  have upstream: "\<forall>k r. is_string m \<and> m \<noteq> JStr [] \<and> key = Some k \<and> k \<noteq> []
            \<and> provider k (completion_payload m) = Resolves r \<and> \<not> ok r \<longrightarrow>
        ai_handler key provider req =
          (\<lparr>res_status = 500,
            res_json = JObj [(''error'', JStr ''OpenAI error''), (''details'', JStr (text_of r))]\<rparr>,
           [Fetch k (completion_payload m)])"
    using assms valid by (auto simp: ai_handler_def respond_def Let_def)
  show ?thesis using bad config upstream by simp
qed

theorem ai_error_kinds_witness:
  "ai_handler (Some ''sk-1'') (answers quota_exceeded) (post_ai (JObj [(''message'', JStr [])]))
     = (\<lparr>res_status = 400, res_json = JObj [(''error'', JStr ''Invalid message'')]\<rparr>, [])
   \<and> ai_handler (Some ''sk-1'') (answers quota_exceeded) (post_ai (JObj [(''message'', JNum 5)]))
     = (\<lparr>res_status = 400, res_json = JObj [(''error'', JStr ''Invalid message'')]\<rparr>, [])
   \<and> ai_handler (Some ''sk-1'') (answers quota_exceeded) (post_ai JUndefined)
     = (\<lparr>res_status = 400, res_json = JObj [(''error'', JStr ''Invalid message'')]\<rparr>, [])
   \<and> ai_handler None (answers quota_exceeded) (post_ai hello)
     = (\<lparr>res_status = 500,
         res_json = JObj [(''error'', JStr ''OpenAI key not set in environment variables'')]\<rparr>, [])
   \<and> ai_handler (Some ''sk-1'') (answers quota_exceeded) (post_ai hello)
     = (\<lparr>res_status = 500,
         res_json = JObj [(''error'', JStr ''OpenAI error''), (''details'', JStr ''quota exceeded'')]\<rparr>,
        [Fetch ''sk-1'' (completion_payload (JStr ''hello''))])"
proof -
  note a = ai_error_kinds [of "post_ai (JObj [(''message'', JStr [])])" "JStr []"
      "Some ''sk-1''" "answers quota_exceeded"]
  note b = ai_error_kinds [of "post_ai (JObj [(''message'', JNum 5)])" "JNum 5"
      "Some ''sk-1''" "answers quota_exceeded"]
  note c = ai_error_kinds [of "post_ai JUndefined" "JUndefined"
      "Some ''sk-1''" "answers quota_exceeded"]
  note d = ai_error_kinds [of "post_ai hello" "JStr ''hello''" "None" "answers quota_exceeded"]
  note e = ai_error_kinds [of "post_ai hello" "JStr ''hello''" "Some ''sk-1''"
      "answers quota_exceeded"]
  have 1: "ai_handler (Some ''sk-1'') (answers quota_exceeded) (post_ai (JObj [(''message'', JStr [])]))
     = (\<lparr>res_status = 400, res_json = JObj [(''error'', JStr ''Invalid message'')]\<rparr>, [])"
    using a by (simp add: post_ai_def js_or_def)
  have 2: "ai_handler (Some ''sk-1'') (answers quota_exceeded) (post_ai (JObj [(''message'', JNum 5)]))
     = (\<lparr>res_status = 400, res_json = JObj [(''error'', JStr ''Invalid message'')]\<rparr>, [])"
    using b by (simp add: post_ai_def js_or_def)
  have 3: "ai_handler (Some ''sk-1'') (answers quota_exceeded) (post_ai JUndefined)
     = (\<lparr>res_status = 400, res_json = JObj [(''error'', JStr ''Invalid message'')]\<rparr>, [])"
    using c by (simp add: post_ai_def js_or_def)
  have 4: "ai_handler None (answers quota_exceeded) (post_ai hello)
     = (\<lparr>res_status = 500,
         res_json = JObj [(''error'', JStr ''OpenAI key not set in environment variables'')]\<rparr>, [])"
    using d by (simp add: post_ai_def hello_def js_or_def)
  have 5: "ai_handler (Some ''sk-1'') (answers quota_exceeded) (post_ai hello)
     = (\<lparr>res_status = 500,
         res_json = JObj [(''error'', JStr ''OpenAI error''), (''details'', JStr ''quota exceeded'')]\<rparr>,
        [Fetch ''sk-1'' (completion_payload (JStr ''hello''))])"
    using e by (simp add: post_ai_def hello_def js_or_def answers_def quota_exceeded_def)
  show ?thesis using 1 2 3 4 5 by simp
qed

text \<open>
  C6, as the handler has it. When the provider answers with success and a JSON body that
  is not null, the answer is status 200 and the reply is \<open>choices[0].message.content\<close> when
  that value is truthy, otherwise \<open>choices[0].text\<close> when that value is truthy, otherwise
  the empty string, whatever else the body holds; the body is returned under \<open>raw\<close>.
\<close>

theorem reply_extraction:
  assumes "method req = ''POST''"
    and "field (js_or (body req) (JObj [])) ''message'' = JStr m" and "m \<noteq> []"
    and "k \<noteq> []"
    and "provider k (completion_payload (JStr m)) = Resolves r"
    and "ok r" and "json_of r = Inr j" and "j \<noteq> JNull" and "j \<noteq> JUndefined"
  shows "ai_handler (Some k) provider req =
           (\<lparr>res_status = 200,
             res_json =
               JObj [(''reply'',
                      if truthy (content_field j) then content_field j
                      else if truthy (text_field j) then text_field j
                      else JStr []),
                     (''raw'', j)]\<rparr>,
            [Fetch k (completion_payload (JStr m))])"
proof -
  have "\<not> nullish j" using assms(8,9) by (cases j) simp_all
  then show ?thesis
    using assms by (simp add: ai_handler_def respond_def Let_def extract_reply_def js_or_def)
qed

theorem reply_extraction_witness:
  "ai_handler (Some ''sk-1'') (answers (completion chat_hi)) (post_ai hello) =
     (\<lparr>res_status = 200, res_json = JObj [(''reply'', JStr ''hi''), (''raw'', chat_hi)]\<rparr>,
      [Fetch ''sk-1'' (completion_payload (JStr ''hello''))])"
  using reply_extraction [of "post_ai hello" "''hello''" "''sk-1''" "answers (completion chat_hi)"
      "completion chat_hi" chat_hi]
  by (simp add: post_ai_def hello_def js_or_def answers_def completion_def chat_hi_def
      content_field_def text_field_def)

text \<open>
  C6 as stated fails twice. With \<open>{choices: [{message: {content: ""}, text: "abc"}]}\<close> the
  structured field is present and is the empty string, and the reply is \<open>abc\<close>. With the
  JSON body \<open>null\<close>, where both fields are absent, the answer is status 500.
\<close>

theorem reply_extraction_counterexample:
  "content_field empty_content = JStr []
   \<and> fst (ai_handler (Some ''sk-1'') (answers (completion empty_content)) (post_ai hello))
       = \<lparr>res_status = 200,
          res_json = JObj [(''reply'', JStr ''abc''), (''raw'', empty_content)]\<rparr>
   \<and> res_status (fst (ai_handler (Some ''sk-1'') (answers (completion JNull)) (post_ai hello)))
       = 500"
  by (simp add: ai_handler_def post_ai_def hello_def js_or_def answers_def completion_def
      empty_content_def content_field_def text_field_def extract_reply_def respond_def caught_def
      Let_def)

section \<open>The catch-all handler: properties\<close>

subsection \<open>Tokens\<close>

lemma replace_first_absent:
  "\<forall>i<length s. \<not> prefix pat (drop i s) \<Longrightarrow> pat \<noteq> [] \<Longrightarrow> replace_first pat rep s = s"
proof (induction s)
  case Nil
  then show ?case by simp
next
  case (Cons c cs)
  from Cons.prems(1) have "\<not> prefix pat (c # cs)" by force
  moreover have "\<forall>i<length cs. \<not> prefix pat (drop i cs)"
  proof (intro allI impI)
    fix i assume "i < length cs"
    then have "Suc i < length (c # cs)" by simp
    with Cons.prems(1) have "\<not> prefix pat (drop (Suc i) (c # cs))" by blast
    then show "\<not> prefix pat (drop i cs)" by simp
  qed
  ultimately show ?case using Cons.IH Cons.prems(2) by simp
qed

lemma replace_first_at:
  "\<forall>i<length pre. \<not> prefix pat (drop i (pre @ pat @ post)) \<Longrightarrow>
     replace_first pat rep (pre @ pat @ post) = pre @ rep @ post"
proof (induction pre)
  case Nil
  then show ?case by (cases pat; cases post) simp_all
next
  case (Cons c cs)
  from Cons.prems have "\<not> prefix pat ((c # cs) @ pat @ post)" by force
  moreover have "\<forall>i<length cs. \<not> prefix pat (drop i (cs @ pat @ post))"
  proof (intro allI impI)
    fix i assume "i < length cs"
    then have "Suc i < length (c # cs)" by simp
    with Cons.prems have "\<not> prefix pat (drop (Suc i) ((c # cs) @ pat @ post))" by blast
    then show "\<not> prefix pat (drop i (cs @ pat @ post))" by simp
  qed
  ultimately show ?case using Cons.IH by simp
qed

lemma extract_token_no_header:
  "h = None \<or> h = Some [] \<or> h = Some ''Bearer '' \<Longrightarrow> extract_token h = None"
  by (auto simp: extract_token_def)

lemma extract_token_bearer:
  "token \<noteq> [] \<Longrightarrow> extract_token (Some (''Bearer '' @ token)) = Some token"
  by (simp add: extract_token_def)

lemma extract_token_at:
  assumes "\<forall>i<length pre. \<not> prefix ''Bearer '' (drop i (pre @ ''Bearer '' @ post))"
  shows "extract_token (Some (pre @ ''Bearer '' @ post)) =
           (if pre @ post = [] then None else Some (pre @ post))"
proof -
  have "replace_first ''Bearer '' [] (pre @ ''Bearer '' @ post) = pre @ [] @ post"
    using assms by (rule replace_first_at)
  then show ?thesis by (simp add: extract_token_def)
qed

lemma extract_token_verbatim:
  assumes "h \<noteq> []" and "\<forall>i<length h. \<not> prefix ''Bearer '' (drop i h)"
  shows "extract_token (Some h) = Some h"
proof -
  have "replace_first ''Bearer '' [] h = h"
    using assms(2) by (rule replace_first_absent) simp
  then show ?thesis using assms(1) by (simp add: extract_token_def)
qed

subsection \<open>Routes\<close>

lemma update_is_not_sync:
  "prefix ''supabase/admin/update'' p \<Longrightarrow> \<not> prefix ''supabase/data/sync_user'' p"
  by (auto simp: prefix_def)

lemma handler_sync_user:
  "method req = ''POST'' \<Longrightarrow> prefix ''supabase/data/sync_user'' (strip_api (url req)) \<Longrightarrow>
     handler svc req w = sync_user svc req w"
  by (simp add: handler_def)

lemma handler_admin_update:
  "method req = ''POST'' \<Longrightarrow> prefix ''supabase/admin/update'' (strip_api (url req)) \<Longrightarrow>
     handler svc req w = admin_update svc req w"
  by (simp add: handler_def update_is_not_sync)

lemma me_is_not_site:
  "prefix ''supabase/data/me'' p \<Longrightarrow>
     \<not> prefix ''supabase/data/site'' p \<and> \<not> prefix ''supabase/data/tutorials'' p
     \<and> \<not> prefix ''supabase/data/cosmetics'' p"
  by (auto simp: prefix_def)

lemma handler_data_me:
  "method req = ''GET'' \<Longrightarrow> prefix ''supabase/data/me'' (strip_api (url req)) \<Longrightarrow>
     handler svc req w = data_me svc req w"
  by (simp add: handler_def me_is_not_site)

lemma sync_user_first_call:
  "extract_token (authorization req) = Some t \<Longrightarrow>
     \<exists>cs. calls (snd (sync_user svc req w)) = calls w @ GetUser t # cs"
  by (auto simp: sync_user_def auth_getUser_def db_upsert_def called_def Let_def
      split: option.splits)

lemma data_me_first_call:
  "extract_token (authorization req) = Some t \<Longrightarrow>
     \<exists>cs. calls (snd (data_me svc req w)) = calls w @ GetUser t # cs"
  by (auto simp: data_me_def auth_getUser_def db_select_def called_def Let_def
      split: option.splits prod.splits)

lemma replace_collection_calls:
  "\<exists>cs. calls (snd (replace_collection svc t p w)) = calls w @ cs"
  by (auto simp: replace_collection_def db_delete_def db_insert_def called_def Let_def
      split: option.splits prod.splits)

lemma perform_update_calls:
  "\<exists>cs. calls (snd (perform_update svc req w)) = calls w @ cs"
  using replace_collection_calls [of svc Tutorials _ w] replace_collection_calls [of svc Cosmetics _ w]
  by (auto simp: perform_update_def db_upsert_def called_def Let_def
      split: option.splits prod.splits)

lemma admin_update_first_call:
  assumes "extract_token (authorization req) = Some t"
  shows "\<exists>cs. calls (snd (admin_update svc req w)) = calls w @ GetUser t # cs"
proof -
  obtain cs where "calls (snd (perform_update svc req (called (Select Users) (called (GetUser t) w))))
      = calls (called (Select Users) (called (GetUser t) w)) @ cs"
    using perform_update_calls by blast
  then show ?thesis
    using assms
    by (auto simp: admin_update_def auth_getUser_def db_select_def called_def Let_def
        split: option.splits prod.splits)
qed

text \<open>
  C7. A GET on the site-settings route, when the settings table holds no row and the
  service does not refuse the read, is answered with status 200 and the default object
  \<open>{title: "Gorilla Hub", about: "Welcome"}\<close>; the tables are left as they were.
\<close>

theorem site_default_when_empty:
  assumes "method req = ''GET''"
    and "prefix ''supabase/data/site'' (strip_api (url req))"
    and "db w Settings = []"
    and "select_error svc Settings = None"
  shows "fst (handler svc req w) =
           \<lparr>res_status = 200,
            res_json = JObj [(''title'', JStr ''Gorilla Hub''), (''about'', JStr ''Welcome'')]\<rparr>
         \<and> db (snd (handler svc req w)) = db w"
  using assms
  by (simp add: handler_def data_site_def db_select_def single_def limit_def called_def
      no_single_row_def respond_def js_or_def)

theorem site_default_when_empty_witness:
  "fst (handler sound_service (request_with ''GET'' ''/api/supabase/data/site'' None JUndefined) start)
     = \<lparr>res_status = 200,
        res_json = JObj [(''title'', JStr ''Gorilla Hub''), (''about'', JStr ''Welcome'')]\<rparr>
   \<and> db (snd (handler sound_service
                (request_with ''GET'' ''/api/supabase/data/site'' None JUndefined) start)) = db start"
  using site_default_when_empty
    [of "request_with ''GET'' ''/api/supabase/data/site'' None JUndefined" start sound_service]
  by (simp add: request_with_def strip_api_def start_def tables_def sound_service_def)

text \<open>
  C8. A request whose method and path match no entry of the route table (the path with
  the mount point stripped, compared by prefix) is answered with status 404, whatever
  its Authorization header and whatever the service would answer; nothing is called and
  nothing is changed.
\<close>

theorem unmatched_is_not_found:
  "\<not> route_matches req \<Longrightarrow>
     handler svc req w = (\<lparr>res_status = 404, res_json = JObj [(''error'', JStr ''Not found'')]\<rparr>, w)"
  by (auto simp: route_matches_def route_table_def handler_def respond_def message_body_def Let_def)

theorem unmatched_is_not_found_witness:
  "\<not> route_matches (request_with ''DELETE'' ''/api/supabase/data/site'' (Some ''Bearer tok-ada'') JUndefined)
   \<and> handler sound_service
       (request_with ''DELETE'' ''/api/supabase/data/site'' (Some ''Bearer tok-ada'') JUndefined) start
     = (\<lparr>res_status = 404, res_json = JObj [(''error'', JStr ''Not found'')]\<rparr>, start)
   \<and> \<not> route_matches (request_with ''GET'' ''/api/supabase/data/users'' None JUndefined)
   \<and> handler sound_service (request_with ''GET'' ''/api/supabase/data/users'' None JUndefined) start
     = (\<lparr>res_status = 404, res_json = JObj [(''error'', JStr ''Not found'')]\<rparr>, start)"
proof -
  have a: "\<not> route_matches (request_with ''DELETE'' ''/api/supabase/data/site'' (Some ''Bearer tok-ada'') JUndefined)"
    by (simp add: route_matches_def route_table_def request_with_def)
  have b: "\<not> route_matches (request_with ''GET'' ''/api/supabase/data/users'' None JUndefined)"
    by (simp add: route_matches_def route_table_def request_with_def strip_api_def)
  show ?thesis
    using a b unmatched_is_not_found [OF a, of sound_service start]
      unmatched_is_not_found [OF b, of sound_service start]
    by simp
qed

text \<open>
  C4. A POST to a write route that carries no bearer token (no Authorization header, an
  empty one, or the bare prefix \<open>Bearer \<close> with nothing after it) is rejected: the user
  synchronisation with status 400 and \<open>Missing token\<close>, the admin update with status 401 and
  \<open>Missing token\<close>. The world returned is the world given: no table is changed and no
  external call is made.
\<close>

theorem write_routes_reject_missing_token:
  assumes "method req = ''POST''"
    and "authorization req = None \<or> authorization req = Some []
         \<or> authorization req = Some ''Bearer ''"
  shows "(prefix ''supabase/data/sync_user'' (strip_api (url req)) \<longrightarrow>
            handler svc req w =
              (\<lparr>res_status = 400, res_json = JObj [(''error'', JStr ''Missing token'')]\<rparr>, w))
         \<and> (prefix ''supabase/admin/update'' (strip_api (url req)) \<longrightarrow>
            handler svc req w =
              (\<lparr>res_status = 401, res_json = JObj [(''error'', JStr ''Missing token'')]\<rparr>, w))"
proof -
  have none: "extract_token (authorization req) = None"
    using assms(2) by (rule extract_token_no_header)
  have sync: "handler svc req w =
      (\<lparr>res_status = 400, res_json = JObj [(''error'', JStr ''Missing token'')]\<rparr>, w)"
    if "prefix ''supabase/data/sync_user'' (strip_api (url req))"
    using handler_sync_user [OF assms(1) that, of svc w] none
    by (simp add: sync_user_def respond_def message_body_def)
  have update: "handler svc req w =
      (\<lparr>res_status = 401, res_json = JObj [(''error'', JStr ''Missing token'')]\<rparr>, w)"
    if "prefix ''supabase/admin/update'' (strip_api (url req))"
    using handler_admin_update [OF assms(1) that, of svc w] none
    by (simp add: admin_update_def respond_def message_body_def)
  show ?thesis using sync update by blast
qed

theorem write_routes_reject_missing_token_witness:
  "handler sound_service (request_with ''POST'' ''/api/supabase/data/sync_user'' None JUndefined) start
     = (\<lparr>res_status = 400, res_json = JObj [(''error'', JStr ''Missing token'')]\<rparr>, start)
   \<and> handler sound_service
       (request_with ''POST'' ''/api/supabase/admin/update'' (Some ''Bearer '') tutorials_update) start
     = (\<lparr>res_status = 401, res_json = JObj [(''error'', JStr ''Missing token'')]\<rparr>, start)"
  using write_routes_reject_missing_token
      [of "request_with ''POST'' ''/api/supabase/data/sync_user'' None JUndefined" sound_service start]
    write_routes_reject_missing_token
      [of "request_with ''POST'' ''/api/supabase/admin/update'' (Some ''Bearer '') tutorials_update"
          sound_service start]
  by (simp add: request_with_def strip_api_def)

text \<open>
  C10. The token is the Authorization header with the first occurrence of the literal
  \<open>Bearer \<close> removed, wherever in the header it stands (or no token, when nothing is left).
  A non-empty header in which the literal does not occur is the token as it is: on the
  three authenticated routes the first external call then is the identity resolution of
  that very header.
\<close>

theorem bearer_token_extraction:
  "((\<forall>i<length pre. \<not> prefix ''Bearer '' (drop i (pre @ ''Bearer '' @ post))) \<longrightarrow>
      extract_token (Some (pre @ ''Bearer '' @ post)) =
        (if pre @ post = [] then None else Some (pre @ post)))
   \<and> (h \<noteq> [] \<and> (\<forall>i<length h. \<not> prefix ''Bearer '' (drop i h)) \<and> authorization req = Some h \<longrightarrow>
        extract_token (Some h) = Some h
        \<and> (method req = ''POST'' \<and> prefix ''supabase/data/sync_user'' (strip_api (url req)) \<longrightarrow>
             (\<exists>cs. calls (snd (handler svc req w)) = calls w @ GetUser h # cs))
        \<and> (method req = ''GET'' \<and> prefix ''supabase/data/me'' (strip_api (url req)) \<longrightarrow>
             (\<exists>cs. calls (snd (handler svc req w)) = calls w @ GetUser h # cs))
        \<and> (method req = ''POST'' \<and> prefix ''supabase/admin/update'' (strip_api (url req)) \<longrightarrow>
             (\<exists>cs. calls (snd (handler svc req w)) = calls w @ GetUser h # cs)))"
proof (intro conjI impI)
  assume "\<forall>i<length pre. \<not> prefix ''Bearer '' (drop i (pre @ ''Bearer '' @ post))"
  then show "extract_token (Some (pre @ ''Bearer '' @ post)) =
      (if pre @ post = [] then None else Some (pre @ post))"
    by (rule extract_token_at)
next
  assume h: "h \<noteq> [] \<and> (\<forall>i<length h. \<not> prefix ''Bearer '' (drop i h)) \<and> authorization req = Some h"
  then show "extract_token (Some h) = Some h"
    using extract_token_verbatim by blast
next
  assume h: "h \<noteq> [] \<and> (\<forall>i<length h. \<not> prefix ''Bearer '' (drop i h)) \<and> authorization req = Some h"
    and r: "method req = ''POST'' \<and> prefix ''supabase/data/sync_user'' (strip_api (url req))"
  from h have "extract_token (authorization req) = Some h"
    using extract_token_verbatim by simp
  then show "\<exists>cs. calls (snd (handler svc req w)) = calls w @ GetUser h # cs"
    using r sync_user_first_call [of req h svc w] by (simp add: handler_sync_user)
next
  assume h: "h \<noteq> [] \<and> (\<forall>i<length h. \<not> prefix ''Bearer '' (drop i h)) \<and> authorization req = Some h"
    and r: "method req = ''GET'' \<and> prefix ''supabase/data/me'' (strip_api (url req))"
  from h have "extract_token (authorization req) = Some h"
    using extract_token_verbatim by simp
  then show "\<exists>cs. calls (snd (handler svc req w)) = calls w @ GetUser h # cs"
    using r data_me_first_call [of req h svc w] by (simp add: handler_data_me)
next
  assume h: "h \<noteq> [] \<and> (\<forall>i<length h. \<not> prefix ''Bearer '' (drop i h)) \<and> authorization req = Some h"
    and r: "method req = ''POST'' \<and> prefix ''supabase/admin/update'' (strip_api (url req))"
  from h have "extract_token (authorization req) = Some h"
    using extract_token_verbatim by simp
  then show "\<exists>cs. calls (snd (handler svc req w)) = calls w @ GetUser h # cs"
    using r admin_update_first_call [of req h svc w] by (simp add: handler_admin_update)
qed

theorem bearer_token_extraction_witness:
  "extract_token (Some ''Bearer tok-ada'') = Some ''tok-ada''
   \<and> extract_token (Some ''x Bearer y Bearer z'') = Some ''x y Bearer z''
   \<and> extract_token (Some ''bearer tok-ada'') = Some ''bearer tok-ada''
   \<and> (\<exists>cs. calls (snd (handler sound_service
          (request_with ''POST'' ''/api/supabase/admin/update'' (Some ''tok-ada'') tutorials_update)
          start)) = calls start @ GetUser ''tok-ada'' # cs)"
proof -
  have a: "extract_token (Some ''Bearer tok-ada'') = Some ''tok-ada''"
    using bearer_token_extraction [where pre = "[]" and post = "''tok-ada''", THEN conjunct1]
    by simp
  have b: "extract_token (Some ''x Bearer y Bearer z'') = Some ''x y Bearer z''"
    using bearer_token_extraction [where pre = "''x ''" and post = "''y Bearer z''", THEN conjunct1]
    by (simp add: All_less_Suc)
  have c: "extract_token (Some ''bearer tok-ada'') = Some ''bearer tok-ada''"
    using bearer_token_extraction
      [where h = "''bearer tok-ada''"
         and req = "request_with ''GET'' ''/api/supabase/data/me'' (Some ''bearer tok-ada'') JUndefined",
       THEN conjunct2]
    by (simp add: request_with_def All_less_Suc)
  have d: "\<exists>cs. calls (snd (handler sound_service
          (request_with ''POST'' ''/api/supabase/admin/update'' (Some ''tok-ada'') tutorials_update)
          start)) = calls start @ GetUser ''tok-ada'' # cs"
    using bearer_token_extraction
      [where h = "''tok-ada''"
         and req = "request_with ''POST'' ''/api/supabase/admin/update'' (Some ''tok-ada'') tutorials_update"
         and svc = sound_service and w = start,
       THEN conjunct2]
    by (simp add: request_with_def strip_api_def All_less_Suc)
  show ?thesis using a b c d by simp
qed

subsection \<open>The role gate\<close>

lemma replace_collection_status:
  "res_status (fst (replace_collection svc t p w)) \<noteq> 403"
  by (auto simp: replace_collection_def respond_def Let_def split: option.splits prod.splits)

lemma perform_update_status:
  "res_status (fst (perform_update svc req w)) \<noteq> 403"
  by (auto simp: perform_update_def replace_collection_status respond_def Let_def
      split: option.splits prod.splits)

lemma admin_update_lookup:
  assumes "method req = ''POST''"
    and "prefix ''supabase/admin/update'' (strip_api (url req))"
    and "authorization req = Some (''Bearer '' @ token)" and "token \<noteq> []"
    and "getUser svc token = \<lparr>gu_user = Some u, gu_error = None\<rparr>"
    and "select_error svc Users = None"
    and "maybeSingle (filter (\<lambda>x. field x ''id'' = JStr (user_id u)) (db w Users), None) = (row, None)"
  shows "handler svc req w =
           (if field row ''role'' = JStr ''admin'' \<or> field row ''role'' = JStr ''dev''
            then perform_update svc req (called (Select Users) (called (GetUser token) w))
            else (respond 403 (message_body ''Insufficient privileges''),
                  called (Select Users) (called (GetUser token) w)))"
proof -
  have tok: "extract_token (authorization req) = Some token"
    unfolding assms(3) using assms(4) by (rule extract_token_bearer)
  have role: "js_or (if nullish row then JUndefined else field row ''role'') (JStr ''user'') = JStr ''admin''
      \<longleftrightarrow> field row ''role'' = JStr ''admin''"
    "js_or (if nullish row then JUndefined else field row ''role'') (JStr ''user'') = JStr ''dev''
      \<longleftrightarrow> field row ''role'' = JStr ''dev''"
    by (cases row; auto simp: js_or_def)+
  have "db (called (GetUser token) w) Users = db w Users"
    by (simp add: called_def)
  then show ?thesis
    using handler_admin_update [OF assms(1,2), of svc w] tok assms(5,6,7) role
    by (simp add: admin_update_def auth_getUser_def db_select_def eq_id_def Let_def)
qed

text \<open>
  C3, as the handler has it. On the admin update route, for a request with a bearer token
  that the service resolves to an identity, and with the profile read not refused: an
  identity with no profile row, or whose stored role is \<open>user\<close>, is answered with status
  403 and nothing is changed; an identity whose stored role is \<open>admin\<close> or \<open>dev\<close> passes,
  that is, the answer is the one of the update, which is never 403.
\<close>

theorem admin_update_role_gate:
  assumes "method req = ''POST''"
    and "prefix ''supabase/admin/update'' (strip_api (url req))"
    and "authorization req = Some (''Bearer '' @ token)" and "token \<noteq> []"
    and "getUser svc token = \<lparr>gu_user = Some u, gu_error = None\<rparr>"
    and "select_error svc Users = None"
    and "filter (\<lambda>x. field x ''id'' = JStr (user_id u)) (db w Users) = profile"
  shows
    "(profile = [] \<or> (\<exists>row. profile = [row] \<and> field row ''role'' = JStr ''user'') \<longrightarrow>
        fst (handler svc req w) =
          \<lparr>res_status = 403, res_json = JObj [(''error'', JStr ''Insufficient privileges'')]\<rparr>
        \<and> db (snd (handler svc req w)) = db w)
     \<and> ((\<exists>row. profile = [row]
               \<and> (field row ''role'' = JStr ''admin'' \<or> field row ''role'' = JStr ''dev'')) \<longrightarrow>
        handler svc req w =
          perform_update svc req (called (Select Users) (called (GetUser token) w))
        \<and> res_status (fst (handler svc req w)) \<noteq> 403)"
proof (intro conjI impI)
  assume low: "profile = [] \<or> (\<exists>row. profile = [row] \<and> field row ''role'' = JStr ''user'')"
  then obtain row where row: "maybeSingle (profile, None) = (row, None)"
    and role: "field row ''role'' \<noteq> JStr ''admin''" "field row ''role'' \<noteq> JStr ''dev''"
    by (auto simp: maybeSingle_def)
  have h: "handler svc req w =
      (respond 403 (message_body ''Insufficient privileges''),
       called (Select Users) (called (GetUser token) w))"
    using admin_update_lookup [OF assms(1-6), of w row] row role assms(7) by simp
  show "fst (handler svc req w) =
      \<lparr>res_status = 403, res_json = JObj [(''error'', JStr ''Insufficient privileges'')]\<rparr>"
    by (simp add: h respond_def message_body_def)
  show "db (snd (handler svc req w)) = db w"
    by (simp add: h called_def)
next
  assume high: "\<exists>row. profile = [row]
      \<and> (field row ''role'' = JStr ''admin'' \<or> field row ''role'' = JStr ''dev'')"
  then obtain row where row: "maybeSingle (profile, None) = (row, None)"
    and role: "field row ''role'' = JStr ''admin'' \<or> field row ''role'' = JStr ''dev''"
    by (auto simp: maybeSingle_def)
  show h: "handler svc req w =
      perform_update svc req (called (Select Users) (called (GetUser token) w))"
    using admin_update_lookup [OF assms(1-6), of w row] row role assms(7) by auto
  show "res_status (fst (handler svc req w)) \<noteq> 403"
    by (simp add: h perform_update_status)
qed

theorem admin_update_role_gate_witness:
  "fst (handler sound_service
         (request_with ''POST'' ''/api/supabase/admin/update'' (Some ''Bearer tok-bob'') tutorials_update)
         start)
     = \<lparr>res_status = 403, res_json = JObj [(''error'', JStr ''Insufficient privileges'')]\<rparr>
   \<and> fst (handler sound_service
         (request_with ''POST'' ''/api/supabase/admin/update'' (Some ''Bearer tok-cy'') tutorials_update)
         start)
     = \<lparr>res_status = 403, res_json = JObj [(''error'', JStr ''Insufficient privileges'')]\<rparr>
   \<and> res_status (fst (handler sound_service
         (request_with ''POST'' ''/api/supabase/admin/update'' (Some ''Bearer tok-ada'') tutorials_update)
         start)) \<noteq> 403"
proof -
  have bob: "fst (handler sound_service
         (request_with ''POST'' ''/api/supabase/admin/update'' (Some ''Bearer tok-bob'') tutorials_update)
         start)
     = \<lparr>res_status = 403, res_json = JObj [(''error'', JStr ''Insufficient privileges'')]\<rparr>"
    using admin_update_role_gate
      [of "request_with ''POST'' ''/api/supabase/admin/update'' (Some ''Bearer tok-bob'') tutorials_update"
          "''tok-bob''" sound_service bob start "[bob_row]"]
    by (simp add: request_with_def strip_api_def sound_service_def accounts_def bob_def start_def
        tables_def ada_row_def bob_row_def)
  have cy: "fst (handler sound_service
         (request_with ''POST'' ''/api/supabase/admin/update'' (Some ''Bearer tok-cy'') tutorials_update)
         start)
     = \<lparr>res_status = 403, res_json = JObj [(''error'', JStr ''Insufficient privileges'')]\<rparr>"
    using admin_update_role_gate
      [of "request_with ''POST'' ''/api/supabase/admin/update'' (Some ''Bearer tok-cy'') tutorials_update"
          "''tok-cy''" sound_service cy start "[]"]
    by (simp add: request_with_def strip_api_def sound_service_def accounts_def cy_def start_def
        tables_def ada_row_def bob_row_def)
  have ada: "res_status (fst (handler sound_service
         (request_with ''POST'' ''/api/supabase/admin/update'' (Some ''Bearer tok-ada'') tutorials_update)
         start)) \<noteq> 403"
    using admin_update_role_gate
      [of "request_with ''POST'' ''/api/supabase/admin/update'' (Some ''Bearer tok-ada'') tutorials_update"
          "''tok-ada''" sound_service ada start "[ada_row]"]
    by (auto simp: request_with_def strip_api_def sound_service_def accounts_def ada_def start_def
        tables_def ada_row_def bob_row_def)
  show ?thesis using bob cy ada by simp
qed

text \<open>
  C3 as stated fails on the other write route: the user synchronisation has no role gate.
  Bob, whose stored role is \<open>user\<close>, and Cy, who has no profile row, are both answered
  with status 200.
\<close>

theorem role_gate_counterexample:
  "map (\<lambda>x. field x ''role'') (filter (\<lambda>x. field x ''id'' = JStr ''u-bob'') (db start Users))
     = [JStr ''user'']
   \<and> fst (handler sound_service
         (request_with ''POST'' ''/api/supabase/data/sync_user'' (Some ''Bearer tok-bob'') JUndefined)
         start)
     = \<lparr>res_status = 200, res_json = JObj [(''ok'', JBool True)]\<rparr>
   \<and> filter (\<lambda>x. field x ''id'' = JStr ''u-cy'') (db start Users) = []
   \<and> fst (handler sound_service
         (request_with ''POST'' ''/api/supabase/data/sync_user'' (Some ''Bearer tok-cy'') JUndefined)
         start)
     = \<lparr>res_status = 200, res_json = JObj [(''ok'', JBool True)]\<rparr>"
  by (simp add: handler_def sync_user_def request_with_def strip_api_def extract_token_def
      auth_getUser_def sound_service_def accounts_def db_upsert_def called_def respond_def
      start_def tables_def ada_row_def bob_row_def Let_def)

subsection \<open>Replacing a collection\<close>

text \<open>
  C1, as the handler has it. On an admin update of type \<open>tutorials\<close> or \<open>cosmetics\<close> that
  has passed the role gate, with a non-empty array as payload: when the delete succeeds
  and the insert is refused with error \<open>e\<close>, the answer is status 500 with the body
  \<open>{error: e.message || e}\<close>, which holds the insert's error and nothing else (no marker of
  a partial write), and the collection is left empty, the other tables as they were.
\<close>

theorem replace_insert_failure:
  assumes "method req = ''POST''"
    and "prefix ''supabase/admin/update'' (strip_api (url req))"
    and "authorization req = Some (''Bearer '' @ token)" and "token \<noteq> []"
    and "getUser svc token = \<lparr>gu_user = Some u, gu_error = None\<rparr>"
    and "select_error svc Users = None"
    and "filter (\<lambda>x. field x ''id'' = JStr (user_id u)) (db w Users) = [row]"
    and "field row ''role'' = JStr ''admin'' \<or> field row ''role'' = JStr ''dev''"
    and "(ty, t) = (''tutorials'', Tutorials) \<or> (ty, t) = (''cosmetics'', Cosmetics)"
    and "field (js_or (body req) (JObj [])) ''type'' = JStr ty"
    and "field (js_or (body req) (JObj [])) ''payload'' = JArr arr" and "arr \<noteq> []"
    and "delete_error svc t = None"
    and "insert_error svc t = Some e"
  shows "fst (handler svc req w) =
           \<lparr>res_status = 500, res_json = JObj [(''error'', js_or (field e ''message'') e)]\<rparr>
         \<and> db (snd (handler svc req w)) t = []
         \<and> (\<forall>t'. t' \<noteq> t \<longrightarrow> db (snd (handler svc req w)) t' = db w t')"
proof -
  have row: "maybeSingle (filter (\<lambda>x. field x ''id'' = JStr (user_id u)) (db w Users), None) = (row, None)"
    using assms(7) by (simp add: maybeSingle_def)
  have h: "handler svc req w =
      perform_update svc req (called (Select Users) (called (GetUser token) w))"
    using admin_update_lookup [OF assms(1-6) row] assms(8) by auto
  have p: "perform_update svc req w' = replace_collection svc t (JArr arr) w'" for w'
    using assms(9,10,11) by (auto simp: perform_update_def Let_def)
  have r: "replace_collection svc t (JArr arr) w' =
      (respond 500 (error_body e),
       called (Insert t arr) (called (Delete t) (w'\<lparr>db := (db w')(t := [])\<rparr>)))" for w'
    using assms(12,13,14)
    by (simp add: replace_collection_def db_delete_def db_insert_def Let_def)
  show ?thesis
    by (simp add: h p r respond_def error_body_def called_def)
qed

theorem replace_insert_failure_witness:
  "fst (handler insert_refused
         (request_with ''POST'' ''/api/supabase/admin/update'' (Some ''Bearer tok-ada'') tutorials_update)
         start)
     = \<lparr>res_status = 500, res_json = JObj [(''error'', JStr ''permission denied'')]\<rparr>
   \<and> db (snd (handler insert_refused
         (request_with ''POST'' ''/api/supabase/admin/update'' (Some ''Bearer tok-ada'') tutorials_update)
         start)) Tutorials = []"
  using replace_insert_failure
    [of "request_with ''POST'' ''/api/supabase/admin/update'' (Some ''Bearer tok-ada'') tutorials_update"
        "''tok-ada''" insert_refused ada start ada_row "''tutorials''" Tutorials
        "[JObj [(''title'', JStr ''A'')]]" refused]
  by (simp add: request_with_def strip_api_def insert_refused_def sound_service_def accounts_def
      ada_def start_def tables_def ada_row_def bob_row_def tutorials_update_def js_or_def
      refused_def)

text \<open>
  C1 as stated fails. The same update is sent to a service that deletes and then refuses
  the insert, and to a service that refuses the delete and the insert alike. The first
  leaves the collection empty, the second leaves the old row in place, and the two
  answers are equal: status 500 with the insert's error message.
\<close>

theorem replace_insert_failure_counterexample:
  "delete_error insert_refused Tutorials = None
   \<and> delete_error delete_and_insert_refused Tutorials = Some refused
   \<and> fst (handler insert_refused
         (request_with ''POST'' ''/api/supabase/admin/update'' (Some ''Bearer tok-ada'') tutorials_update)
         start)
     = \<lparr>res_status = 500, res_json = JObj [(''error'', JStr ''permission denied'')]\<rparr>
   \<and> fst (handler delete_and_insert_refused
         (request_with ''POST'' ''/api/supabase/admin/update'' (Some ''Bearer tok-ada'') tutorials_update)
         start)
     = \<lparr>res_status = 500, res_json = JObj [(''error'', JStr ''permission denied'')]\<rparr>
   \<and> db (snd (handler insert_refused
         (request_with ''POST'' ''/api/supabase/admin/update'' (Some ''Bearer tok-ada'') tutorials_update)
         start)) Tutorials = []
   \<and> db (snd (handler delete_and_insert_refused
         (request_with ''POST'' ''/api/supabase/admin/update'' (Some ''Bearer tok-ada'') tutorials_update)
         start)) Tutorials = [old_tutorial]"
  by (simp add: handler_def admin_update_def perform_update_def replace_collection_def
      request_with_def strip_api_def extract_token_def auth_getUser_def db_select_def
      db_delete_def db_insert_def eq_id_def maybeSingle_def called_def respond_def error_body_def
      insert_refused_def delete_and_insert_refused_def sound_service_def accounts_def ada_def
      start_def tables_def ada_row_def bob_row_def tutorials_update_def js_or_def refused_def
      Let_def)

subsection \<open>Synchronising a profile\<close>

text \<open>
  C2 at a concrete store. Ada has one profile row, with the role \<open>admin\<close>. She signs in and
  the front end calls the user synchronisation with her token: the answer is status 200,
  she still has exactly one row, and its role now is \<open>user\<close>.
\<close>

theorem sync_user_overwrites_role:
  "map (\<lambda>x. field x ''role'') (filter (\<lambda>x. field x ''id'' = JStr ''u-ada'') (db start Users))
     = [JStr ''admin'']
   \<and> fst (handler sound_service
         (request_with ''POST'' ''/api/supabase/data/sync_user'' (Some ''Bearer tok-ada'') JUndefined)
         start)
     = \<lparr>res_status = 200, res_json = JObj [(''ok'', JBool True)]\<rparr>
   \<and> map (\<lambda>x. field x ''role'')
        (filter (\<lambda>x. field x ''id'' = JStr ''u-ada'')
           (db (snd (handler sound_service
              (request_with ''POST'' ''/api/supabase/data/sync_user'' (Some ''Bearer tok-ada'') JUndefined)
              start)) Users))
     = [JStr ''user'']"
  by (simp add: handler_def sync_user_def request_with_def strip_api_def extract_token_def
      auth_getUser_def sound_service_def accounts_def ada_def db_upsert_def upsert_rows_def
      merge_row_def obj_assign_def email_json_def email_local_def called_def respond_def
      start_def tables_def ada_row_def bob_row_def js_or_def Let_def)

end
